theory Spec2Isabelle
  imports Main
begin

section \<open>The protocol: \<open>error_traits\<close> and the capability predicates\<close>

text \<open>
  The header \<^verbatim>\<open>try_operator.hpp\<close> is a template library: which code runs is decided
  when a template is instantiated, what it computes is decided when it runs. The model
  keeps the two stages apart. Instantiating a template at given types yields either a
  \<open>compile_error\<close> or the function that runs (a value of a sum type, \<open>Inl\<close> the
  error); only the second stage ever sees a value.

  \<^item> \<open>Static_assert_failed\<close>: a \<^verbatim>\<open>static_assert\<close> of the header is false;
  \<^item> \<open>Substitution_failure\<close>: \<^verbatim>\<open>std::enable_if_t\<close> removes the conversion operator,
    so no conversion to the destination exists;
  \<^item> \<open>No_matching_function\<close>: a call in an instantiated body does not fit the
    signature of the trait's member.
\<close>

datatype compile_error = Static_assert_failed | Substitution_failure | No_matching_function

text \<open>
  A call at run time either returns a value or has undefined behaviour: its result is
  \<open>fault + 'a\<close>, \<open>Inl\<close> the fault. Every function of the header is \<^verbatim>\<open>noexcept\<close>, so
  there is no exception to model; the one operation with a precondition that the header
  uses is \<^verbatim>\<open>*opt\<close> on a \<^verbatim>\<open>std::optional\<close>.
\<close>

datatype fault = Undefined_behaviour

text \<open>
  \<^verbatim>\<open>make_error\<close> takes either nothing or the error payload
  (\<^verbatim>\<open>static T make_error(OPT error_type&&) noexcept\<close>).
\<close>

datatype ('e, 't) make_error_fn = Make_nullary 't | Make_unary "'e \<Rightarrow> 't"

text \<open>
  A specialisation \<^verbatim>\<open>error_traits<T>\<close> is a record of its static member functions:
  \<open>'t\<close> is \<^verbatim>\<open>T\<close>, \<open>'v\<close> the type of the embedded value, \<open>'e\<close> the type of the
  error payload. The two optional members are \<open>None\<close> when the specialisation does not
  declare them.
\<close>

record ('t, 'v, 'e) error_traits =
  indicates_error :: "'t \<Rightarrow> fault + bool"
  make_error :: "('e, 't) make_error_fn"
  extract_value :: "('t \<Rightarrow> fault + 'v) option"
  extract_error :: "('t \<Rightarrow> 'e) option"

text \<open>
  \<^verbatim>\<open>is_detailed_error_v<T>\<close>: the expressions \<^verbatim>\<open>indicates_error(x)\<close> and
  \<^verbatim>\<open>make_error(extract_error(std::move(x)))\<close> are well formed.
\<close>

definition is_detailed_error_v :: "('t, 'v, 'e) error_traits \<Rightarrow> bool" where
  "is_detailed_error_v tr =
     (case extract_error tr of
        None \<Rightarrow> False
      | Some ex \<Rightarrow> (case make_error tr of Make_unary mk \<Rightarrow> True | Make_nullary d \<Rightarrow> False))"

text \<open>
  \<^verbatim>\<open>is_error_with_value_v<T>\<close>: \<^verbatim>\<open>indicates_error(x)\<close>, the name
  \<^verbatim>\<open>make_error\<close> and \<^verbatim>\<open>extract_value(std::move(x))\<close> are well formed.
\<close>

definition is_error_with_value_v :: "('t, 'v, 'e) error_traits \<Rightarrow> bool" where
  "is_error_with_value_v tr = (case extract_value tr of None \<Rightarrow> False | Some ev \<Rightarrow> True)"

definition is_error_v :: "('t, 'v, 'e) error_traits \<Rightarrow> bool" where
  "is_error_v tr = (is_detailed_error_v tr \<or> is_error_with_value_v tr)"

section \<open>\<open>error_proxy\<close>\<close>

text \<open>
  \<^verbatim>\<open>error_proxy<Src>\<close> holds the value it was built from. Its constructor carries
  \<^verbatim>\<open>static_assert(is_error_v<Src>)\<close>.
\<close>

datatype 's error_proxy = Error_proxy (proxy_value: 's)

definition error_proxy_ctor ::
  "('s, 'sv, 'e) error_traits \<Rightarrow> compile_error + ('s \<Rightarrow> 's error_proxy)" where
  "error_proxy_ctor src =
     (if is_error_v src then Inr (\<lambda>v. Error_proxy v) else Inl Static_assert_failed)"

text \<open>
  \<^verbatim>\<open>template <class Dst, class = std::enable_if_t<is_error_v<Dst>>> operator Dst() const\<close>.
  The payload extracted from the source is handed to the destination's
  \<^verbatim>\<open>make_error\<close>, so both traits share the payload type \<open>'e\<close>.
\<close>

type_synonym ('s, 'd) conversion = "compile_error + ('s error_proxy \<Rightarrow> 'd)"

definition operator_Dst ::
  "('s, 'sv, 'e) error_traits \<Rightarrow> ('d, 'dv, 'e) error_traits \<Rightarrow> ('s, 'd) conversion" where
  "operator_Dst src dst =
     (if \<not> is_error_v dst then Inl Substitution_failure
      else if is_detailed_error_v dst then
        (if \<not> is_detailed_error_v src then Inl Static_assert_failed
         else (case extract_error src of
                 None \<Rightarrow> Inl No_matching_function
               | Some extract_error_src \<Rightarrow>
                   (case make_error dst of
                      Make_nullary d \<Rightarrow> Inl No_matching_function
                    | Make_unary make_error_dst \<Rightarrow>
                        Inr (\<lambda>proxy.
                          let error = extract_error_src (proxy_value proxy)
                          in make_error_dst error))))
      else (case make_error dst of
              Make_nullary d \<Rightarrow> Inr (\<lambda>proxy. d)
            | Make_unary mk \<Rightarrow> Inl No_matching_function))"

section \<open>The \<open>try()\<close> macro\<close>

text \<open>
  The macro is a statement expression inside an enclosing function. One evaluation of it
  either executes \<^verbatim>\<open>return\<close>, leaving the enclosing function with a result of its
  return type \<open>'r\<close>, or completes with the value of its last expression (a value, or
  nothing when that expression has type \<^verbatim>\<open>void\<close>).
\<close>

datatype ('r, 'v) completion = Returns 'r | Yields 'v | Yields_nothing | Faults fault

text \<open>
  \<^verbatim>\<open>detail::maybe_extract_value\<close>: \<^verbatim>\<open>if constexpr (is_error_with_value_v<T>)\<close>
  it returns \<^verbatim>\<open>extract_value(std::move(value))\<close>, and otherwise it returns nothing.
\<close>

definition maybe_extract_value :: "('t, 'v, 'e) error_traits \<Rightarrow> 't \<Rightarrow> ('r, 'v) completion" where
  "maybe_extract_value tr v =
     (case extract_value tr of
        Some extract_value_tr \<Rightarrow>
          (case extract_value_tr v of Inr x \<Rightarrow> Yields x | Inl f \<Rightarrow> Faults f)
      | None \<Rightarrow> Yields_nothing)"

text \<open>
  The operand \<^verbatim>\<open>expr\<close> is any C++ expression, so it may have effects: it maps the
  program state to its value and the state it leaves. \<open>try_macro src ret_init\<close> is the
  macro used on an operand of the type with traits \<open>src\<close>, in a function whose result
  is initialised from an \<^verbatim>\<open>error_proxy<Src>\<close> by \<open>ret_init\<close>:
  \<^verbatim>\<open>return ::tryop::error_proxy{std::move(_value_)};\<close> copy-initialises the result of
  the enclosing function, and which conversion that is depends on the function's return
  type (see the section on copy-initialisation below).
\<close>

definition try_macro ::
  "('t, 'v, 'e) error_traits \<Rightarrow> ('t, 'r) conversion \<Rightarrow>
     compile_error + (('s \<Rightarrow> 't \<times> 's) \<Rightarrow> 's \<Rightarrow> ('r, 'v) completion \<times> 's)" where
  "try_macro src ret_init =
     (if \<not> is_error_v src then Inl Static_assert_failed
      else (case error_proxy_ctor src of
              Inl e \<Rightarrow> Inl e
            | Inr ctor \<Rightarrow>
                (case ret_init of
                   Inl e \<Rightarrow> Inl e
                 | Inr conv \<Rightarrow>
                     Inr (\<lambda>expr s.
                       let (v, s') = expr s
                       in (case indicates_error src v of
                             Inl f \<Rightarrow> (Faults f, s')
                           | Inr failed \<Rightarrow>
                               if failed then (Returns (conv (ctor v)), s')
                               else (maybe_extract_value src v, s'))))))"

text \<open>
  The rest of the enclosing function, after a statement: \<^verbatim>\<open>return\<close> leaves the
  function, so the rest runs only when the statement completed without returning; it is
  given the value the statement yielded, if any.
\<close>

definition then_stmt ::
  "('s \<Rightarrow> ('r, 'v) completion \<times> 's) \<Rightarrow> ('v option \<Rightarrow> 's \<Rightarrow> ('r, 'w) completion \<times> 's) \<Rightarrow>
     's \<Rightarrow> ('r, 'w) completion \<times> 's" where
  "then_stmt stmt rest s =
     (case stmt s of
        (Returns r, s') \<Rightarrow> (Returns r, s')
      | (Yields x, s') \<Rightarrow> rest (Some x) s'
      | (Yields_nothing, s') \<Rightarrow> rest None s'
      | (Faults f, s') \<Rightarrow> (Faults f, s'))"

section \<open>Optional-like \<open>error_traits\<close>\<close>

text \<open>
  \<^verbatim>\<open>std::optional<T>\<close> is \<open>'a option\<close> and \<^verbatim>\<open>{}\<close> is the empty optional.
  \<^verbatim>\<open>static_cast<bool>(opt)\<close> is \<^verbatim>\<open>has_value()\<close>, defined on every optional;
  \<^verbatim>\<open>*opt\<close> requires that the optional holds a value, and is undefined behaviour on
  an empty one.
\<close>

definition optional_operator_bool :: "'a option \<Rightarrow> fault + bool" where
  "optional_operator_bool opt = Inr (case opt of None \<Rightarrow> False | Some x \<Rightarrow> True)"

definition optional_operator_star :: "'a option \<Rightarrow> fault + 'a" where
  "optional_operator_star opt =
     (case opt of None \<Rightarrow> Inl Undefined_behaviour | Some x \<Rightarrow> Inr x)"

definition optional_traits :: "('a option, 'a, 'e) error_traits" where
  "optional_traits =
     \<lparr> indicates_error =
         (\<lambda>opt. case optional_operator_bool opt of Inl f \<Rightarrow> Inl f | Inr b \<Rightarrow> Inr (\<not> b)),
       make_error = Make_nullary None,
       extract_value = Some (\<lambda>opt. optional_operator_star opt),
       extract_error = None \<rparr>"

section \<open>Error code-like \<open>error_traits\<close>\<close>

text \<open>
  \<^verbatim>\<open>std::error_code\<close> and \<^verbatim>\<open>std::error_condition\<close> are an \<^verbatim>\<open>int\<close> and a category;
  \<^verbatim>\<open>static_cast<bool>(ec)\<close> is \<^verbatim>\<open>value() != 0\<close>, defined on every code. No
  arithmetic is done on the value, so it is an \<open>int\<close>.
\<close>

datatype error_category = Generic_category | System_category | Custom_category string

datatype error_code = Error_code (ec_value: int) (ec_category: error_category)

datatype error_condition = Error_condition (cond_value: int) (cond_category: error_category)

definition error_code_operator_bool :: "error_code \<Rightarrow> fault + bool" where
  "error_code_operator_bool ec = Inr (ec_value ec \<noteq> 0)"

definition error_condition_operator_bool :: "error_condition \<Rightarrow> fault + bool" where
  "error_condition_operator_bool ec = Inr (cond_value ec \<noteq> 0)"

definition indicates_error_error_code :: "error_code \<Rightarrow> fault + bool" where
  "indicates_error_error_code ec = error_code_operator_bool ec"

definition indicates_error_error_condition :: "error_condition \<Rightarrow> fault + bool" where
  "indicates_error_error_condition ec = error_condition_operator_bool ec"

text \<open>
  A type is error code-like when a free function \<^verbatim>\<open>indicates_error\<close> accepts it
  (\<^verbatim>\<open>has_indicates_error_v<T>\<close>); the overload found for the type is the parameter
  \<open>ie\<close>.
\<close>

definition call_indicates_error :: "('e \<Rightarrow> fault + bool) \<Rightarrow> 'e \<Rightarrow> fault + bool" where
  "call_indicates_error ie error = ie error"

definition error_code_like_traits ::
  "('e \<Rightarrow> fault + bool) \<Rightarrow> ('e, 'v, 'e) error_traits" where
  "error_code_like_traits ie =
     \<lparr> indicates_error = (\<lambda>err. call_indicates_error ie err),
       make_error = Make_unary (\<lambda>err. err),
       extract_value = None,
       extract_error = Some (\<lambda>err. err) \<rparr>"

section \<open>Pair-like \<open>error_traits\<close>\<close>

text \<open>
  \<^verbatim>\<open>Pair<T, Error>\<close> is a product; \<^verbatim>\<open>std::get<0>\<close> is \<open>fst\<close> and
  \<^verbatim>\<open>std::get<1>\<close> is \<open>snd\<close>. The specialisation is enabled when \<^verbatim>\<open>Error\<close> is a
  detailed error without value.
\<close>

definition pair_like_enabled :: "('e, 'ev, 'ee) error_traits \<Rightarrow> bool" where
  "pair_like_enabled err_traits =
     (is_detailed_error_v err_traits \<and> \<not> is_error_with_value_v err_traits)"

text \<open>
  \<^verbatim>\<open>Pair<T, Error>{}\<close> is the value-initialised pair, the parameter \<open>init\<close>: what it
  holds depends on \<^verbatim>\<open>T\<close> and \<^verbatim>\<open>Error\<close>. \<open>ie\<close> is the free function
  \<^verbatim>\<open>indicates_error\<close> for \<^verbatim>\<open>Error\<close>.
\<close>

definition pair_like_traits ::
  "'a \<times> 'e \<Rightarrow> ('e \<Rightarrow> fault + bool) \<Rightarrow> ('a \<times> 'e, 'a, 'e) error_traits" where
  "pair_like_traits init ie =
     \<lparr> indicates_error = (\<lambda>val. call_indicates_error ie (snd val)),
       make_error = Make_unary (\<lambda>err. let val = init in (fst val, err)),
       extract_value = Some (\<lambda>val. Inr (fst val)),
       extract_error = Some (\<lambda>val. snd val) \<rparr>"

text \<open>
  Value initialisation of the component types used below: an \<^verbatim>\<open>int\<close> is
  zero, a \<^verbatim>\<open>std::string\<close> is empty, a \<^verbatim>\<open>std::error_code\<close> is
  \<^verbatim>\<open>(0, system_category())\<close>, and a tuple value-initialises its components.
\<close>

definition value_init_int :: int where
  "value_init_int = 0"

definition value_init_string :: string where
  "value_init_string = []"

definition value_init_error_code :: error_code where
  "value_init_error_code = Error_code 0 System_category"

definition error_code_traits :: "(error_code, 'v, error_code) error_traits" where
  "error_code_traits = error_code_like_traits indicates_error_error_code"

definition error_condition_traits :: "(error_condition, 'v, error_condition) error_traits" where
  "error_condition_traits = error_code_like_traits indicates_error_error_condition"

definition int_error_code_traits :: "(int \<times> error_code, int, error_code) error_traits" where
  "int_error_code_traits =
     pair_like_traits (value_init_int, value_init_error_code) indicates_error_error_code"

definition string_error_code_traits ::
  "(string \<times> error_code, string, error_code) error_traits" where
  "string_error_code_traits =
     pair_like_traits (value_init_string, value_init_error_code) indicates_error_error_code"

section \<open>Calls of \<open>make_error\<close>\<close>

text \<open>
  The two call expressions of the header, \<^verbatim>\<open>error_traits<Dst>::make_error(std::move(error))\<close>
  and \<^verbatim>\<open>error_traits<Dst>::make_error()\<close>: each is well formed only for the matching
  signature of the member.
\<close>

definition call_make_error :: "('t, 'v, 'e) error_traits \<Rightarrow> 'e \<Rightarrow> compile_error + 't" where
  "call_make_error tr err =
     (case make_error tr of
        Make_unary mk \<Rightarrow> Inr (mk err)
      | Make_nullary d \<Rightarrow> Inl No_matching_function)"

definition call_make_error_nullary :: "('t, 'v, 'e) error_traits \<Rightarrow> compile_error + 't" where
  "call_make_error_nullary tr =
     (case make_error tr of
        Make_nullary d \<Rightarrow> Inr d
      | Make_unary mk \<Rightarrow> Inl No_matching_function)"

section \<open>Copy-initialisation of the result from the proxy\<close>

text \<open>
  \<^verbatim>\<open>return ::tryop::error_proxy{std::move(_value_)};\<close> copy-initialises a value of the
  return type \<^verbatim>\<open>R\<close> from an rvalue \<^verbatim>\<open>error_proxy<Src>\<close>. The candidates are the
  converting constructors of \<^verbatim>\<open>R\<close> and the conversion operator template of the proxy.

  \<^item> \<^verbatim>\<open>std::error_code\<close>, \<^verbatim>\<open>std::error_condition\<close>, \<^verbatim>\<open>std::pair\<close> and a
    two-element \<^verbatim>\<open>std::tuple\<close> have no constructor that accepts a proxy: the result is
    \<open>operator_Dst src dst\<close>, with \<open>dst\<close> the traits of \<^verbatim>\<open>R\<close>.
  \<^item> \<^verbatim>\<open>std::optional<X>\<close> has the converting constructor
    \<^verbatim>\<open>template <class U = X> optional(U&&)\<close>, a candidate when \<^verbatim>\<open>X\<close> is constructible
    from \<^verbatim>\<open>U\<close>. \<^verbatim>\<open>X\<close> is constructible from a proxy exactly when the proxy's
    conversion operator to \<^verbatim>\<open>X\<close> exists, that is when \<^verbatim>\<open>is_error_v<X>\<close>. The
    constructor is then the better candidate (it binds \<^verbatim>\<open>error_proxy&&\<close>, where the
    operator, a \<^verbatim>\<open>const\<close> member, binds \<^verbatim>\<open>const error_proxy&\<close>): the result is an
    optional that holds the \<^verbatim>\<open>X\<close> built from the proxy, and \<^verbatim>\<open>operator Dst\<close> at
    \<^verbatim>\<open>Dst = std::optional<X>\<close> is not called. When \<^verbatim>\<open>X\<close> is not constructible from a
    proxy, the conversion operator is the only candidate.
\<close>

text \<open>
  The converting constructor of \<^verbatim>\<open>std::optional<X>\<close>: it holds the \<^verbatim>\<open>X\<close> that
  \<open>init_x\<close> builds from the proxy.
\<close>

definition optional_converting_ctor :: "('s, 'x) conversion \<Rightarrow> ('s, 'x option) conversion" where
  "optional_converting_ctor init_x =
     (case init_x of
        Inl e \<Rightarrow> Inl e
      | Inr init \<Rightarrow> Inr (\<lambda>proxy. Some (init proxy)))"

text \<open>
  The result of a function returning \<^verbatim>\<open>std::optional<X>\<close>, for \<^verbatim>\<open>X\<close> that is not
  itself an optional. \<open>x_traits\<close> is \<^verbatim>\<open>error_traits<X>\<close>, \<open>None\<close> for a type without
  traits such as \<^verbatim>\<open>int\<close> or \<^verbatim>\<open>std::string\<close>. With \<^verbatim>\<open>is_error_v<X>\<close> the
  converting constructor is selected and the \<^verbatim>\<open>X\<close> is built by the proxy's
  \<^verbatim>\<open>operator X\<close>; otherwise the proxy's \<^verbatim>\<open>operator std::optional<X>\<close> is.
\<close>

definition copy_init_optional ::
  "('s, 'sv, 'e) error_traits \<Rightarrow> ('x, 'xv, 'e) error_traits option \<Rightarrow>
     ('s, 'x option) conversion" where
  "copy_init_optional src x_traits =
     (case x_traits of
        None \<Rightarrow> operator_Dst src optional_traits
      | Some tr \<Rightarrow>
          if is_error_v tr then optional_converting_ctor (operator_Dst src tr)
          else operator_Dst src optional_traits)"

text \<open>
  The result of a function returning \<^verbatim>\<open>std::optional<std::optional<Y>>\<close>: an optional
  is always constructible from a proxy (\<^verbatim>\<open>is_error_v<std::optional<Y>>\<close> holds), so the
  converting constructor is selected; \<open>init_inner\<close> builds the inner optional.
\<close>

definition copy_init_optional_of_optional ::
  "('s, 'y option) conversion \<Rightarrow> ('s, 'y option option) conversion" where
  "copy_init_optional_of_optional init_inner = optional_converting_ctor init_inner"

section \<open>The assertions of the header\<close>

lemma optional_is_error_with_value: "is_error_with_value_v optional_traits"
  by (simp add: is_error_with_value_v_def optional_traits_def)

lemma optional_not_detailed: "\<not> is_detailed_error_v optional_traits"
  by (simp add: is_detailed_error_v_def optional_traits_def)

lemma error_code_like_detailed: "is_detailed_error_v (error_code_like_traits ie)"
  by (simp add: is_detailed_error_v_def error_code_like_traits_def)

lemma error_code_like_not_with_value: "\<not> is_error_with_value_v (error_code_like_traits ie)"
  by (simp add: is_error_with_value_v_def error_code_like_traits_def)

lemma pair_like_detailed: "is_detailed_error_v (pair_like_traits init ie)"
  by (simp add: is_detailed_error_v_def pair_like_traits_def)

lemma pair_like_with_value: "is_error_with_value_v (pair_like_traits init ie)"
  by (simp add: is_error_with_value_v_def pair_like_traits_def)

lemma pair_like_enabled_error_code_like: "pair_like_enabled (error_code_like_traits ie)"
  by (simp add: pair_like_enabled_def error_code_like_detailed error_code_like_not_with_value)

section \<open>The members of the three adapters\<close>

lemma error_code_like_fields:
  "indicates_error (error_code_like_traits ie) = (\<lambda>err. ie err)"
  "make_error (error_code_like_traits ie) = Make_unary (\<lambda>err. err)"
  "extract_value (error_code_like_traits ie) = None"
  "extract_error (error_code_like_traits ie) = Some (\<lambda>err. err)"
  by (simp_all add: error_code_like_traits_def call_indicates_error_def)

lemma pair_like_fields:
  "indicates_error (pair_like_traits init ie) = (\<lambda>val. ie (snd val))"
  "make_error (pair_like_traits init ie) = Make_unary (\<lambda>err. (fst init, err))"
  "extract_value (pair_like_traits init ie) = Some (\<lambda>val. Inr (fst val))"
  "extract_error (pair_like_traits init ie) = Some (\<lambda>val. snd val)"
  by (simp_all add: pair_like_traits_def call_indicates_error_def)

lemma optional_fields:
  "indicates_error optional_traits = (\<lambda>opt. Inr (opt = None))"
  "make_error optional_traits = Make_nullary None"
  "extract_value optional_traits =
     Some (\<lambda>opt. case opt of Some x \<Rightarrow> Inr x | None \<Rightarrow> Inl Undefined_behaviour)"
  "extract_error optional_traits = None"
  by (simp_all add: optional_traits_def optional_operator_bool_def optional_operator_star_def
      fun_eq_iff split: option.splits)

lemma indicates_error_error_code_eq:
  "indicates_error_error_code ec = Inr (ec_value ec \<noteq> 0)"
  by (simp add: indicates_error_error_code_def error_code_operator_bool_def)

lemma indicates_error_error_condition_eq:
  "indicates_error_error_condition ec = Inr (cond_value ec \<noteq> 0)"
  by (simp add: indicates_error_error_condition_def error_condition_operator_bool_def)

section \<open>What the instantiated templates are\<close>

lemma try_macro_Inr:
  assumes "is_error_v src"
  shows "try_macro src (Inr conv) =
           Inr (\<lambda>expr s.
             (case indicates_error src (fst (expr s)) of
                Inl f \<Rightarrow> Faults f
              | Inr failed \<Rightarrow>
                  if failed then Returns (conv (Error_proxy (fst (expr s))))
                  else maybe_extract_value src (fst (expr s)),
              snd (expr s)))"
  using assms
  by (simp add: try_macro_def error_proxy_ctor_def split_def Let_def fun_eq_iff
      split: sum.splits)

lemma operator_Dst_detailed:
  assumes "is_detailed_error_v src" and "is_detailed_error_v dst"
  shows "\<exists>ex mk. extract_error src = Some ex \<and> make_error dst = Make_unary mk
           \<and> operator_Dst src dst = Inr (\<lambda>proxy. mk (ex (proxy_value proxy)))"
  using assms
  by (auto simp add: operator_Dst_def is_error_v_def is_detailed_error_v_def
      split: option.splits make_error_fn.splits)

lemma operator_Dst_to_error_code_like:
  assumes "is_detailed_error_v src" and "extract_error src = Some ex"
  shows "operator_Dst src (error_code_like_traits ie) = Inr (\<lambda>proxy. ex (proxy_value proxy))"
  using assms
  by (simp add: operator_Dst_def is_error_v_def error_code_like_detailed error_code_like_fields)

lemma operator_Dst_to_pair_like:
  assumes "is_detailed_error_v src" and "extract_error src = Some ex"
  shows "operator_Dst src (pair_like_traits init ie) =
           Inr (\<lambda>proxy. (fst init, ex (proxy_value proxy)))"
  using assms
  by (simp add: operator_Dst_def is_error_v_def pair_like_detailed pair_like_fields)

lemma operator_Dst_not_detailed:
  assumes "is_error_v dst" and "\<not> is_detailed_error_v dst"
  shows "operator_Dst src dst =
           (case make_error dst of
              Make_nullary d \<Rightarrow> Inr (\<lambda>proxy. d)
            | Make_unary mk \<Rightarrow> Inl No_matching_function)"
  using assms by (simp add: operator_Dst_def)

lemma operator_Dst_to_optional: "operator_Dst src optional_traits = Inr (\<lambda>proxy. None)"
  by (simp add: operator_Dst_def is_error_v_def optional_is_error_with_value
      optional_not_detailed optional_fields)

lemma copy_init_optional_without_traits:
  "copy_init_optional src None = Inr (\<lambda>proxy. None)"
  by (simp add: copy_init_optional_def operator_Dst_to_optional)

lemma copy_init_optional_with_traits:
  assumes "is_error_v tr"
  shows "copy_init_optional src (Some tr) = optional_converting_ctor (operator_Dst src tr)"
  using assms by (simp add: copy_init_optional_def)

lemma error_code_traits_detailed: "is_detailed_error_v error_code_traits"
  by (simp add: error_code_traits_def error_code_like_detailed)

lemma error_code_traits_is_error: "is_error_v error_code_traits"
  by (simp add: is_error_v_def error_code_traits_detailed)

lemma error_code_traits_extract_error: "extract_error error_code_traits = Some (\<lambda>err. err)"
  by (simp add: error_code_traits_def error_code_like_fields)

lemma error_code_traits_indicates_error:
  "indicates_error error_code_traits = indicates_error_error_code"
  by (simp add: error_code_traits_def error_code_like_fields)

lemma operator_Dst_error_code_to_error_code:
  "operator_Dst error_code_traits error_code_traits = Inr (\<lambda>proxy. proxy_value proxy)"
  by (simp add: operator_Dst_to_error_code_like
      [OF error_code_traits_detailed error_code_traits_extract_error,
        where ie = indicates_error_error_code, folded error_code_traits_def])

lemma operator_Dst_error_code_to_int_error_code:
  "operator_Dst error_code_traits int_error_code_traits
     = Inr (\<lambda>proxy. (0, proxy_value proxy))"
  by (simp add: int_error_code_traits_def value_init_int_def
      operator_Dst_to_pair_like [OF error_code_traits_detailed error_code_traits_extract_error])

section \<open>Short-circuit on failure\<close>

text \<open>
  C1. When the operand of \<^verbatim>\<open>try()\<close> indicates an error, the macro executes
  \<^verbatim>\<open>return\<close>: the enclosing function ends, and its result is the failing value, moved
  into an \<open>error_proxy\<close> and converted to the function's return type by the
  copy-initialisation \<open>ret_init\<close> of that type. Whatever the rest of the function is,
  it does not run: the result and the state are those the macro left.
\<close>

theorem try_short_circuit:
  assumes "is_error_v src"
    and "ret_init = Inr conv"
    and "indicates_error src (fst (expr s)) = Inr True"
  shows "\<exists>run. try_macro src ret_init = Inr run
           \<and> run expr s = (Returns (conv (Error_proxy (fst (expr s)))), snd (expr s))
           \<and> (\<forall>rest. then_stmt (run expr) rest s =
                  (Returns (conv (Error_proxy (fst (expr s)))), snd (expr s)))"
  using assms(3) unfolding assms(2)
  by (simp add: try_macro_Inr [OF assms(1)] then_stmt_def)

theorem try_short_circuit_witness:
  "is_error_v string_error_code_traits
   \<and> copy_init_optional string_error_code_traits
        (None :: (string, unit, error_code) error_traits option)
      = Inr (\<lambda>proxy. None)
   \<and> indicates_error string_error_code_traits
        (fst ((\<lambda>n::nat. ((''partial'', Error_code 5 Generic_category), Suc n)) 0)) = Inr True
   \<and> (\<exists>run. try_macro string_error_code_traits
               (copy_init_optional string_error_code_traits
                  (None :: (string, unit, error_code) error_traits option)) = Inr run
        \<and> then_stmt (run (\<lambda>n::nat. ((''partial'', Error_code 5 Generic_category), Suc n)))
             (\<lambda>y n. (Returns (Some ''later'') :: (string option, unit) completion, n + 100)) 0
           = (Returns None, 1))
   \<and> (\<exists>run. try_macro (error_code_traits :: (error_code, unit, error_code) error_traits)
               (copy_init_optional
                  (error_code_traits :: (error_code, unit, error_code) error_traits)
                  (Some (error_code_traits :: (error_code, unit, error_code) error_traits)))
              = Inr run
        \<and> then_stmt (run (\<lambda>n::nat. (Error_code 5 Generic_category, Suc n)))
             (\<lambda>y n. (Returns None :: (error_code option, unit) completion, n + 100)) 0
           = (Returns (Some (Error_code 5 Generic_category)), 1))"
proof -
  let ?src = "string_error_code_traits"
  let ?ret = "copy_init_optional string_error_code_traits
                (None :: (string, unit, error_code) error_traits option)"
  let ?expr = "\<lambda>n::nat. ((''partial'', Error_code 5 Generic_category), Suc n)"
  let ?ect = "error_code_traits :: (error_code, unit, error_code) error_traits"
  let ?ret' = "copy_init_optional ?ect (Some ?ect)"
  let ?expr' = "\<lambda>n::nat. (Error_code 5 Generic_category, Suc n)"
  have h1: "is_error_v ?src"
    by (simp add: is_error_v_def string_error_code_traits_def pair_like_detailed)
  have h2: "?ret = Inr (\<lambda>proxy. None)"
    by (rule copy_init_optional_without_traits)
  have h3: "indicates_error ?src (fst (?expr 0)) = Inr True"
    by (simp add: string_error_code_traits_def pair_like_fields indicates_error_error_code_eq)
  note a = try_short_circuit [where src = ?src and ret_init = ?ret and conv = "\<lambda>proxy. None"
      and expr = ?expr and s = 0, OF h1 h2 h3]
  from a obtain run where "try_macro ?src ?ret = Inr run"
    and "\<forall>rest :: string option \<Rightarrow> nat \<Rightarrow> (string option, unit) completion \<times> nat.
           then_stmt (run ?expr) rest 0 = (Returns None, 1)"
    by auto
  then have first: "\<exists>run. try_macro ?src ?ret = Inr run
        \<and> then_stmt (run ?expr)
             (\<lambda>y n. (Returns (Some ''later'') :: (string option, unit) completion, n + 100)) 0
           = (Returns None, 1)"
    by blast
  have k1: "is_error_v ?ect"
    by (rule error_code_traits_is_error)
  have k2: "?ret' = Inr (\<lambda>proxy. Some (proxy_value proxy))"
    by (simp add: copy_init_optional_with_traits [OF error_code_traits_is_error]
        operator_Dst_error_code_to_error_code optional_converting_ctor_def)
  have k3: "indicates_error ?ect (fst (?expr' 0)) = Inr True"
    by (simp add: error_code_traits_indicates_error indicates_error_error_code_eq)
  note b = try_short_circuit [where src = ?ect and ret_init = ?ret'
      and conv = "\<lambda>proxy. Some (proxy_value proxy)" and expr = ?expr' and s = 0, OF k1 k2 k3]
  from b obtain run' where "try_macro ?ect ?ret' = Inr run'"
    and "\<forall>rest :: unit option \<Rightarrow> nat \<Rightarrow> (error_code option, unit) completion \<times> nat.
           then_stmt (run' ?expr') rest 0 = (Returns (Some (Error_code 5 Generic_category)), 1)"
    by auto
  then have second: "\<exists>run. try_macro ?ect ?ret' = Inr run
        \<and> then_stmt (run ?expr')
             (\<lambda>y n. (Returns None :: (error_code option, unit) completion, n + 100)) 0
           = (Returns (Some (Error_code 5 Generic_category)), 1)"
    by blast
  show ?thesis
    by (intro conjI) (rule h1 h2 h3 first second)+
qed

section \<open>Conversions of the proxy\<close>

text \<open>
  C2. From a detailed source to a detailed destination the proxy returns the destination's
  \<^verbatim>\<open>make_error\<close> applied to the source's \<^verbatim>\<open>extract_error\<close> of the held value.
  For the two detailed adapters of the header (error code-like and pair-like
  destinations), \<^verbatim>\<open>extract_error\<close> of the converted value is the payload extracted from
  the source.
\<close>

theorem proxy_detailed_to_detailed:
  assumes "is_detailed_error_v src" and "extract_error src = Some ex"
  shows "(is_detailed_error_v dst \<longrightarrow>
            (\<exists>mk. make_error dst = Make_unary mk
               \<and> operator_Dst src dst = Inr (\<lambda>proxy. mk (ex (proxy_value proxy)))))
         \<and> (\<exists>conv ex_dst. operator_Dst src (error_code_like_traits ie) = Inr conv
               \<and> extract_error (error_code_like_traits ie) = Some ex_dst
               \<and> (\<forall>v. conv (Error_proxy v) = ex v \<and> ex_dst (conv (Error_proxy v)) = ex v))
         \<and> (\<exists>conv ex_dst. operator_Dst src (pair_like_traits init ie') = Inr conv
               \<and> extract_error (pair_like_traits init ie') = Some ex_dst
               \<and> (\<forall>v. conv (Error_proxy v) = (fst init, ex v)
                      \<and> ex_dst (conv (Error_proxy v)) = ex v))"
proof (intro conjI impI)
  assume "is_detailed_error_v dst"
  with assms operator_Dst_detailed [of src dst]
  show "\<exists>mk. make_error dst = Make_unary mk
          \<and> operator_Dst src dst = Inr (\<lambda>proxy. mk (ex (proxy_value proxy)))"
    by auto
next
  show "\<exists>conv ex_dst. operator_Dst src (error_code_like_traits ie) = Inr conv
               \<and> extract_error (error_code_like_traits ie) = Some ex_dst
               \<and> (\<forall>v. conv (Error_proxy v) = ex v \<and> ex_dst (conv (Error_proxy v)) = ex v)"
    by (simp add: operator_Dst_to_error_code_like [OF assms] error_code_like_fields)
next
  show "\<exists>conv ex_dst. operator_Dst src (pair_like_traits init ie') = Inr conv
               \<and> extract_error (pair_like_traits init ie') = Some ex_dst
               \<and> (\<forall>v. conv (Error_proxy v) = (fst init, ex v)
                      \<and> ex_dst (conv (Error_proxy v)) = ex v)"
    by (simp add: operator_Dst_to_pair_like [OF assms] pair_like_fields)
qed

theorem proxy_detailed_to_detailed_witness:
  "is_detailed_error_v string_error_code_traits
   \<and> extract_error string_error_code_traits = Some (\<lambda>val. snd val)
   \<and> is_detailed_error_v (error_code_traits :: (error_code, unit, error_code) error_traits)
   \<and> operator_Dst string_error_code_traits
        (error_code_traits :: (error_code, unit, error_code) error_traits)
      = Inr (\<lambda>proxy. snd (proxy_value proxy))
   \<and> (\<exists>conv. operator_Dst string_error_code_traits int_error_code_traits = Inr conv
         \<and> conv (Error_proxy (''abc'', Error_code 7 Generic_category))
             = (0, Error_code 7 Generic_category))"
proof -
  let ?dst = "error_code_traits :: (error_code, unit, error_code) error_traits"
  have h1: "is_detailed_error_v string_error_code_traits"
    by (simp add: string_error_code_traits_def pair_like_detailed)
  have h2: "extract_error string_error_code_traits = Some (\<lambda>val. snd val)"
    by (simp add: string_error_code_traits_def pair_like_fields)
  have h3: "is_detailed_error_v ?dst"
    by (simp add: error_code_traits_def error_code_like_detailed)
  note t = proxy_detailed_to_detailed [OF h1 h2, where dst = ?dst
      and init = "(value_init_int, value_init_error_code)"
      and ie = indicates_error_error_code
      and ie' = indicates_error_error_code]
  from t h3 have a: "operator_Dst string_error_code_traits ?dst
      = Inr (\<lambda>proxy. snd (proxy_value proxy))"
    by (auto simp add: error_code_traits_def error_code_like_fields)
  from t obtain conv where
    "operator_Dst string_error_code_traits
       (pair_like_traits (value_init_int, value_init_error_code) indicates_error_error_code)
     = Inr conv"
    and "\<forall>v. conv (Error_proxy v) = (fst (value_init_int, value_init_error_code), snd v)"
    by blast
  then have b: "\<exists>conv. operator_Dst string_error_code_traits int_error_code_traits = Inr conv
         \<and> conv (Error_proxy (''abc'', Error_code 7 Generic_category))
             = (0, Error_code 7 Generic_category)"
    by (simp add: int_error_code_traits_def value_init_int_def)
  from h1 h2 h3 a b show ?thesis by blast
qed

text \<open>
  C3. A failing value converted through the proxy to a destination that is not a detailed
  error should be the destination's \<^verbatim>\<open>make_error()\<close>, whatever the payload: the
  header describes the proxy as creating another value in an error state, and the
  body of \<^verbatim>\<open>operator Dst\<close> returns \<^verbatim>\<open>make_error()\<close> for such a destination
  (\<open>operator_Dst_not_detailed\<close>, \<open>operator_Dst_to_optional\<close>). A destination
  \<^verbatim>\<open>std::optional<X>\<close> with \<^verbatim>\<open>X\<close> an error type is not initialised through that
  body, and the code departs from the statement there:
  \<^item> a set \<^verbatim>\<open>std::error_code\<close> converted to \<^verbatim>\<open>std::optional<std::error_code>\<close> is
    the optional holding that code, different for different codes, where
    \<^verbatim>\<open>make_error()\<close> is the empty optional; the optional obtained does not indicate an
    error;
  \<^item> converted to \<^verbatim>\<open>std::optional<std::optional<int>>\<close> it is the optional holding an
    empty optional;
  \<^item> an empty \<^verbatim>\<open>std::optional<int>\<close> cannot be converted to
    \<^verbatim>\<open>std::optional<std::error_code>\<close> at all: the \<^verbatim>\<open>static_assert\<close> of
    \<^verbatim>\<open>operator std::error_code\<close> fails.
\<close>

theorem proxy_to_optional_of_error_type:
  "(\<exists>conv. copy_init_optional (error_code_traits :: (error_code, unit, error_code) error_traits)
              (Some (error_code_traits :: (error_code, unit, error_code) error_traits))
            = Inr conv
        \<and> conv (Error_proxy (Error_code 5 Generic_category))
            = Some (Error_code 5 Generic_category)
        \<and> conv (Error_proxy (Error_code 6 Generic_category))
            = Some (Error_code 6 Generic_category))
   \<and> call_make_error_nullary
        (optional_traits :: (error_code option, error_code, error_code) error_traits)
      = Inr None
   \<and> indicates_error
        (optional_traits :: (error_code option, error_code, error_code) error_traits)
        (Some (Error_code 5 Generic_category)) = Inr False
   \<and> (\<exists>conv. copy_init_optional_of_optional
              (copy_init_optional (error_code_traits :: (error_code, unit, error_code) error_traits)
                 (None :: (int, unit, error_code) error_traits option))
            = Inr conv
        \<and> conv (Error_proxy (Error_code 5 Generic_category)) = Some None)
   \<and> copy_init_optional (optional_traits :: (int option, int, error_code) error_traits)
        (Some (error_code_traits :: (error_code, unit, error_code) error_traits))
      = Inl Static_assert_failed"
proof (intro conjI)
  show "\<exists>conv. copy_init_optional (error_code_traits :: (error_code, unit, error_code) error_traits)
              (Some (error_code_traits :: (error_code, unit, error_code) error_traits))
            = Inr conv
        \<and> conv (Error_proxy (Error_code 5 Generic_category))
            = Some (Error_code 5 Generic_category)
        \<and> conv (Error_proxy (Error_code 6 Generic_category))
            = Some (Error_code 6 Generic_category)"
    by (simp add: copy_init_optional_with_traits [OF error_code_traits_is_error]
        operator_Dst_error_code_to_error_code optional_converting_ctor_def)
  show "call_make_error_nullary
        (optional_traits :: (error_code option, error_code, error_code) error_traits)
      = Inr None"
    by (simp add: call_make_error_nullary_def optional_fields)
  show "indicates_error
        (optional_traits :: (error_code option, error_code, error_code) error_traits)
        (Some (Error_code 5 Generic_category)) = Inr False"
    by (simp add: optional_fields)
  show "\<exists>conv. copy_init_optional_of_optional
              (copy_init_optional (error_code_traits :: (error_code, unit, error_code) error_traits)
                 (None :: (int, unit, error_code) error_traits option))
            = Inr conv
        \<and> conv (Error_proxy (Error_code 5 Generic_category)) = Some None"
    by (simp add: copy_init_optional_of_optional_def copy_init_optional_without_traits
        optional_converting_ctor_def)
  show "copy_init_optional (optional_traits :: (int option, int, error_code) error_traits)
        (Some (error_code_traits :: (error_code, unit, error_code) error_traits))
      = Inl Static_assert_failed"
    by (simp add: copy_init_optional_with_traits [OF error_code_traits_is_error]
        optional_converting_ctor_def operator_Dst_def error_code_traits_is_error
        error_code_traits_detailed optional_not_detailed)
qed

text \<open>
  C4. Converting a proxy of a source that is not a detailed error to a detailed
  destination fails the \<^verbatim>\<open>static_assert\<close> of the conversion operator when the template
  is instantiated: no conversion function exists, and neither does a \<^verbatim>\<open>try()\<close> of such
  an operand in a function returning such a type.
\<close>

theorem proxy_no_upgrade:
  assumes "\<not> is_detailed_error_v src" and "is_detailed_error_v dst"
  shows "operator_Dst src dst = Inl Static_assert_failed
         \<and> try_macro src (operator_Dst src dst) = Inl Static_assert_failed"
  using assms
  by (simp add: operator_Dst_def try_macro_def error_proxy_ctor_def is_error_v_def)

theorem proxy_no_upgrade_witness:
  "\<not> is_detailed_error_v (optional_traits :: (int option, int, error_code) error_traits)
   \<and> is_detailed_error_v int_error_code_traits
   \<and> operator_Dst (optional_traits :: (int option, int, error_code) error_traits)
        int_error_code_traits = Inl Static_assert_failed
   \<and> (try_macro (optional_traits :: (int option, int, error_code) error_traits)
        (operator_Dst (optional_traits :: (int option, int, error_code) error_traits)
           int_error_code_traits)
        :: compile_error + ((nat \<Rightarrow> int option \<times> nat) \<Rightarrow> nat \<Rightarrow> (int \<times> error_code, int) completion \<times> nat))
      = Inl Static_assert_failed"
proof -
  let ?src = "optional_traits :: (int option, int, error_code) error_traits"
  have h1: "\<not> is_detailed_error_v ?src"
    by (rule optional_not_detailed)
  have h2: "is_detailed_error_v int_error_code_traits"
    by (simp add: int_error_code_traits_def pair_like_detailed)
  from proxy_no_upgrade [OF h1 h2] h1 h2 show ?thesis
    by simp
qed

section \<open>Pass-through on success\<close>

text \<open>
  C5. When the operand of \<^verbatim>\<open>try()\<close> does not indicate an error, the macro does not
  return: it yields \<^verbatim>\<open>extract_value\<close> of the operand when the operand's type is an
  error with value, and nothing otherwise, and the rest of the enclosing function runs
  from the state the operand left, given what was yielded. For the adapters of the header:
  an optional that does not indicate an error holds a value, and that value is what
  \<^verbatim>\<open>extract_value\<close> returns; for a pair it is the first component; the error code-like
  traits have no \<^verbatim>\<open>extract_value\<close>.
\<close>

theorem try_pass_through:
  assumes "is_error_v src"
    and "ret_init = Inr conv"
    and "indicates_error src (fst (expr s)) = Inr False"
  shows "(\<exists>run. try_macro src ret_init = Inr run
            \<and> (case extract_value src of
                  Some ev \<Rightarrow>
                    (case ev (fst (expr s)) of
                       Inr x \<Rightarrow>
                         run expr s = (Yields x, snd (expr s))
                         \<and> (\<forall>rest. then_stmt (run expr) rest s = rest (Some x) (snd (expr s)))
                     | Inl f \<Rightarrow> run expr s = (Faults f, snd (expr s)))
                | None \<Rightarrow>
                    run expr s = (Yields_nothing, snd (expr s))
                    \<and> (\<forall>rest. then_stmt (run expr) rest s = rest None (snd (expr s)))))
         \<and> (\<forall>opt. indicates_error optional_traits opt = Inr False \<longrightarrow>
                (\<exists>ev x. extract_value optional_traits = Some ev \<and> opt = Some x \<and> ev opt = Inr x))
         \<and> (\<exists>ev. extract_value (pair_like_traits init ie) = Some ev \<and> (\<forall>val. ev val = Inr (fst val)))
         \<and> extract_value (error_code_like_traits ie') = None"
proof (intro conjI)
  show "\<exists>run. try_macro src ret_init = Inr run
            \<and> (case extract_value src of
                  Some ev \<Rightarrow>
                    (case ev (fst (expr s)) of
                       Inr x \<Rightarrow>
                         run expr s = (Yields x, snd (expr s))
                         \<and> (\<forall>rest. then_stmt (run expr) rest s = rest (Some x) (snd (expr s)))
                     | Inl f \<Rightarrow> run expr s = (Faults f, snd (expr s)))
                | None \<Rightarrow>
                    run expr s = (Yields_nothing, snd (expr s))
                    \<and> (\<forall>rest. then_stmt (run expr) rest s = rest None (snd (expr s))))"
    using assms(3) unfolding assms(2)
    by (simp add: try_macro_Inr [OF assms(1)] maybe_extract_value_def then_stmt_def
        split: option.splits sum.splits)
next
  show "\<forall>opt. indicates_error optional_traits opt = Inr False \<longrightarrow>
                (\<exists>ev x. extract_value optional_traits = Some ev \<and> opt = Some x \<and> ev opt = Inr x)"
    by (auto simp add: optional_fields)
next
  show "\<exists>ev. extract_value (pair_like_traits init ie) = Some ev \<and> (\<forall>val. ev val = Inr (fst val))"
    by (simp add: pair_like_fields)
next
  show "extract_value (error_code_like_traits ie') = None"
    by (simp add: error_code_like_fields)
qed

theorem try_pass_through_witness:
  "is_error_v (optional_traits :: (string option, string, error_code) error_traits)
   \<and> copy_init_optional (optional_traits :: (string option, string, error_code) error_traits)
        (None :: (int, unit, error_code) error_traits option)
      = Inr (\<lambda>proxy. None)
   \<and> indicates_error (optional_traits :: (string option, string, error_code) error_traits)
        (fst ((\<lambda>n::nat. (Some ''ok'', Suc n)) 0)) = Inr False
   \<and> (\<exists>run. try_macro (optional_traits :: (string option, string, error_code) error_traits)
               (copy_init_optional
                  (optional_traits :: (string option, string, error_code) error_traits)
                  (None :: (int, unit, error_code) error_traits option)) = Inr run
        \<and> run (\<lambda>n::nat. (Some ''ok'', Suc n)) 0 = (Yields ''ok'', 1)
        \<and> then_stmt (run (\<lambda>n::nat. (Some ''ok'', Suc n)))
             (\<lambda>y n. (Returns (map_option (\<lambda>t. int (length t)) y) :: (int option, unit) completion,
                       n + 100)) 0
           = (Returns (Some 2), 101))"
proof -
  let ?src = "optional_traits :: (string option, string, error_code) error_traits"
  let ?ret = "copy_init_optional ?src (None :: (int, unit, error_code) error_traits option)"
  let ?expr = "\<lambda>n::nat. (Some ''ok'', Suc n)"
  let ?rest = "\<lambda>(y :: string option) (n :: nat).
     (Returns (map_option (\<lambda>t. int (length t)) y) :: (int option, unit) completion, n + 100)"
  have h1: "is_error_v ?src"
    by (simp add: is_error_v_def optional_is_error_with_value)
  have h2: "?ret = Inr (\<lambda>proxy. None)"
    by (rule copy_init_optional_without_traits)
  have h3: "indicates_error ?src (fst (?expr 0)) = Inr False"
    by (simp add: optional_fields)
  note t = try_pass_through [where src = ?src and ret_init = ?ret and conv = "\<lambda>proxy. None"
      and expr = ?expr and s = 0, OF h1 h2 h3, THEN conjunct1]
  from t obtain run where "try_macro ?src ?ret = Inr run"
    and "run ?expr 0 = (Yields ''ok'', 1)"
    and "\<forall>rest :: string option \<Rightarrow> nat \<Rightarrow> (int option, unit) completion \<times> nat.
           then_stmt (run ?expr) rest 0 = rest (Some ''ok'') 1"
    by (auto simp add: optional_fields)
  then have "try_macro ?src ?ret = Inr run \<and> run ?expr 0 = (Yields ''ok'', 1)
      \<and> then_stmt (run ?expr) ?rest 0 = (Returns (Some 2), 101)"
    by simp
  then have last: "\<exists>run. try_macro ?src ?ret = Inr run
        \<and> run ?expr 0 = (Yields ''ok'', 1)
        \<and> then_stmt (run ?expr) ?rest 0 = (Returns (Some 2), 101)"
    by blast
  show ?thesis
    by (intro conjI) (rule h1 h2 h3 last)+
qed

section \<open>What \<open>make_error\<close> builds\<close>

text \<open>
  C6, as the code has it. \<^verbatim>\<open>make_error\<close> of the error code-like and of the pair-like
  traits stores the payload it is given, so the value it returns indicates an error when
  the payload itself does (\<open>ie p = Inr True\<close>, with \<open>ie\<close> the free function
  \<^verbatim>\<open>indicates_error\<close> of the payload's type); \<^verbatim>\<open>make_error()\<close> of the optional-like
  traits always indicates an error.
\<close>

theorem make_error_indicates_error:
  assumes "ie p = Inr True"
  shows "(\<exists>x. call_make_error (error_code_like_traits ie) p = Inr x
            \<and> indicates_error (error_code_like_traits ie) x = Inr True)
         \<and> (\<exists>y. call_make_error (pair_like_traits init ie) p = Inr y
            \<and> indicates_error (pair_like_traits init ie) y = Inr True)
         \<and> (\<exists>z. call_make_error_nullary optional_traits = Inr z
            \<and> indicates_error optional_traits z = Inr True)"
  using assms
  by (simp add: call_make_error_def call_make_error_nullary_def error_code_like_fields
      pair_like_fields optional_fields)

theorem make_error_indicates_error_witness:
  "indicates_error_error_code (Error_code 13 Generic_category) = Inr True
   \<and> call_make_error (error_code_traits :: (error_code, unit, error_code) error_traits)
       (Error_code 13 Generic_category) = Inr (Error_code 13 Generic_category)
   \<and> indicates_error (error_code_traits :: (error_code, unit, error_code) error_traits)
       (Error_code 13 Generic_category) = Inr True
   \<and> call_make_error int_error_code_traits (Error_code 13 Generic_category)
       = Inr (0, Error_code 13 Generic_category)
   \<and> indicates_error int_error_code_traits (0, Error_code 13 Generic_category) = Inr True"
proof -
  have h: "indicates_error_error_code (Error_code 13 Generic_category) = Inr True"
    by (simp add: indicates_error_error_code_eq)
  from make_error_indicates_error [where ie = indicates_error_error_code
      and p = "Error_code 13 Generic_category"
      and init = "(value_init_int, value_init_error_code)", OF h]
    h
  show ?thesis
    by (auto simp add: error_code_traits_def int_error_code_traits_def value_init_int_def
        call_make_error_def error_code_like_fields pair_like_fields)
qed

text \<open>
  Without the hypothesis the statement fails: \<^verbatim>\<open>make_error\<close> of an unset
  \<^verbatim>\<open>std::error_code\<close> returns that unset code, which does not indicate an error, and
  the pair built from it does not either.
\<close>

theorem make_error_unset_counterexample:
  "call_make_error (error_code_traits :: (error_code, unit, error_code) error_traits)
     (Error_code 0 System_category) = Inr (Error_code 0 System_category)
   \<and> indicates_error (error_code_traits :: (error_code, unit, error_code) error_traits)
         (Error_code 0 System_category) = Inr False
   \<and> call_make_error int_error_code_traits (Error_code 0 System_category)
       = Inr (0, Error_code 0 System_category)
   \<and> indicates_error int_error_code_traits (0, Error_code 0 System_category) = Inr False"
  by (simp add: error_code_traits_def int_error_code_traits_def value_init_int_def
      call_make_error_def error_code_like_fields pair_like_fields indicates_error_error_code_eq)

section \<open>Error code-like types: the code is the payload\<close>

text \<open>
  C7. For the error code-like traits, \<^verbatim>\<open>extract_error\<close> and \<^verbatim>\<open>make_error\<close> both
  return the code they are given, so each composition of the two returns it as well.
\<close>

theorem error_code_like_round_trip:
  "\<exists>mk ex. make_error (error_code_like_traits ie) = Make_unary mk
     \<and> extract_error (error_code_like_traits ie) = Some ex
     \<and> (\<forall>e. ex e = e \<and> mk e = e \<and> ex (mk e) = e \<and> mk (ex e) = e)"
  by (simp add: error_code_like_traits_def)

section \<open>Pair-like types\<close>

text \<open>
  C8. \<^verbatim>\<open>make_error(err)\<close> of the pair-like traits returns the value-initialised pair
  with \<open>err\<close> stored in its second component: the first component is the default of
  its type. A function returning \<^verbatim>\<open>(int, std::error_code)\<close> that uses \<^verbatim>\<open>try()\<close>
  on a set \<^verbatim>\<open>std::error_code\<close> \<open>E\<close> returns \<open>(0, E)\<close>.
\<close>

theorem pair_like_make_error:
  assumes "indicates_error_error_code (fst (expr s)) = Inr True"
  shows "(\<exists>mk. make_error (pair_like_traits init ie) = Make_unary mk
            \<and> (\<forall>err. fst (mk err) = fst init \<and> snd (mk err) = err))
         \<and> (\<exists>run. try_macro error_code_traits
                     (operator_Dst error_code_traits int_error_code_traits) = Inr run
            \<and> (\<forall>rest. then_stmt (run expr) rest s = (Returns (0, fst (expr s)), snd (expr s))))"
proof (intro conjI)
  show "\<exists>mk. make_error (pair_like_traits init ie) = Make_unary mk
            \<and> (\<forall>err. fst (mk err) = fst init \<and> snd (mk err) = err)"
    by (simp add: pair_like_fields)
next
  from assms show "\<exists>run. try_macro error_code_traits
                     (operator_Dst error_code_traits int_error_code_traits) = Inr run
            \<and> (\<forall>rest. then_stmt (run expr) rest s = (Returns (0, fst (expr s)), snd (expr s)))"
    by (simp add: then_stmt_def error_code_traits_indicates_error
        operator_Dst_error_code_to_int_error_code try_macro_Inr [OF error_code_traits_is_error])
qed

theorem pair_like_make_error_witness:
  "indicates_error_error_code (fst ((\<lambda>n::nat. (Error_code 2 Generic_category, Suc n)) 0))
     = Inr True
   \<and> call_make_error int_error_code_traits (Error_code 2 Generic_category)
       = Inr (0, Error_code 2 Generic_category)
   \<and> (\<exists>run. try_macro (error_code_traits :: (error_code, unit, error_code) error_traits)
                (operator_Dst (error_code_traits :: (error_code, unit, error_code) error_traits)
                   int_error_code_traits) = Inr run
         \<and> then_stmt (run (\<lambda>n::nat. (Error_code 2 Generic_category, Suc n)))
              (\<lambda>y n. (Returns (1, value_init_error_code) :: (int \<times> error_code, unit) completion,
                        n + 100)) 0
            = (Returns (0, Error_code 2 Generic_category), 1))"
proof -
  let ?ect = "error_code_traits :: (error_code, unit, error_code) error_traits"
  let ?expr = "\<lambda>n::nat. (Error_code 2 Generic_category, Suc n)"
  let ?rest = "\<lambda>(y :: unit option) (n :: nat).
     (Returns (1, value_init_error_code) :: (int \<times> error_code, unit) completion, n + 100)"
  have h: "indicates_error_error_code (fst (?expr 0)) = Inr True"
    by (simp add: indicates_error_error_code_eq)
  note t = pair_like_make_error [where expr = ?expr and s = 0
      and init = "(value_init_int, value_init_error_code)"
      and ie = indicates_error_error_code, OF h]
  from t have a: "call_make_error int_error_code_traits (Error_code 2 Generic_category)
       = Inr (0, Error_code 2 Generic_category)"
    by (auto simp add: call_make_error_def int_error_code_traits_def value_init_int_def
        prod_eq_iff)
  from t obtain run where
    "try_macro ?ect (operator_Dst ?ect int_error_code_traits) = Inr run"
    and "\<forall>rest :: unit option \<Rightarrow> nat \<Rightarrow> (int \<times> error_code, unit) completion \<times> nat.
           then_stmt (run ?expr) rest 0 = (Returns (0, fst (?expr 0)), snd (?expr 0))"
    by blast
  then have "try_macro ?ect (operator_Dst ?ect int_error_code_traits) = Inr run
     \<and> then_stmt (run ?expr) ?rest 0 = (Returns (0, Error_code 2 Generic_category), 1)"
    by simp
  then have b: "\<exists>run. try_macro ?ect (operator_Dst ?ect int_error_code_traits) = Inr run
     \<and> then_stmt (run ?expr) ?rest 0 = (Returns (0, Error_code 2 Generic_category), 1)"
    by blast
  show ?thesis
    by (intro conjI) (rule h a b)+
qed

section \<open>\<open>indicates_error\<close> classifies every value\<close>

text \<open>
  A call can fail in this model: \<^verbatim>\<open>extract_value\<close> of the optional-like traits on an
  empty optional is undefined behaviour.
\<close>

lemma optional_extract_value_of_empty:
  "\<exists>ev. extract_value optional_traits = Some ev \<and> ev None = Inl Undefined_behaviour"
  by (simp add: optional_fields)

text \<open>
  C9. \<^verbatim>\<open>indicates_error\<close> of each adapter returns a boolean on every value of its
  type and never faults: it uses only the conversion to \<^verbatim>\<open>bool\<close> of the optional or of
  the code, which has no precondition. An optional indicates an error exactly when it is
  empty, an error code or condition exactly when its value is not zero, a pair exactly when
  its second component does; the error code-like and pair-like traits add nothing to the
  free function \<open>ie\<close> they call. So every value is classified, and as one boolean only.
\<close>

theorem indicates_error_total:
  "indicates_error optional_traits opt = Inr (opt = None)
   \<and> indicates_error error_code_traits ec = Inr (ec_value ec \<noteq> 0)
   \<and> indicates_error error_condition_traits cond = Inr (cond_value cond \<noteq> 0)
   \<and> indicates_error (pair_like_traits init indicates_error_error_code) val
       = Inr (ec_value (snd val) \<noteq> 0)
   \<and> indicates_error (pair_like_traits init1 indicates_error_error_condition) val1
       = Inr (cond_value (snd val1) \<noteq> 0)
   \<and> indicates_error (error_code_like_traits ie) e = ie e
   \<and> indicates_error (pair_like_traits init2 ie) val2 = ie (snd val2)
   \<and> (\<exists>!b. indicates_error optional_traits opt = Inr b)
   \<and> (\<exists>!b. indicates_error error_code_traits ec = Inr b)
   \<and> (\<exists>!b. indicates_error error_condition_traits cond = Inr b)
   \<and> (\<exists>!b. indicates_error (pair_like_traits init indicates_error_error_code) val = Inr b)"
  by (simp add: optional_fields error_code_like_fields pair_like_fields error_code_traits_def
      error_condition_traits_def indicates_error_error_code_eq
      indicates_error_error_condition_eq)

section \<open>The operand is evaluated once\<close>

text \<open>
  C10. One use of \<^verbatim>\<open>try()\<close> evaluates its operand once, on both paths: the state
  after the macro is the state after one evaluation of the operand, and what the macro
  returns or yields is computed from the value of that one evaluation, tested first with
  \<^verbatim>\<open>indicates_error\<close>.
\<close>

theorem try_evaluates_operand_once:
  assumes "is_error_v src" and "ret_init = Inr conv"
  shows "\<exists>run. try_macro src ret_init = Inr run
           \<and> (\<forall>expr s.
                 snd (run expr s) = snd (expr s)
                 \<and> fst (run expr s) =
                     (case indicates_error src (fst (expr s)) of
                        Inl f \<Rightarrow> Faults f
                      | Inr failed \<Rightarrow>
                          if failed then Returns (conv (Error_proxy (fst (expr s))))
                          else maybe_extract_value src (fst (expr s))))"
  unfolding assms(2) by (simp add: try_macro_Inr [OF assms(1)])

theorem try_evaluates_operand_once_witness:
  "is_error_v (optional_traits :: (int option, int, error_code) error_traits)
   \<and> copy_init_optional (optional_traits :: (int option, int, error_code) error_traits)
        (None :: (string, unit, error_code) error_traits option)
      = Inr (\<lambda>proxy. None)
   \<and> (\<exists>run. try_macro (optional_traits :: (int option, int, error_code) error_traits)
               (copy_init_optional
                  (optional_traits :: (int option, int, error_code) error_traits)
                  (None :: (string, unit, error_code) error_traits option)) = Inr run
        \<and> run (\<lambda>n::nat. (Some 7, Suc n)) 0 = (Yields 7, 1)
        \<and> run (\<lambda>n::nat. (None, Suc n)) 0 = (Returns None, 1))"
proof -
  let ?src = "optional_traits :: (int option, int, error_code) error_traits"
  let ?ret = "copy_init_optional ?src (None :: (string, unit, error_code) error_traits option)"
  have h1: "is_error_v ?src"
    by (simp add: is_error_v_def optional_is_error_with_value)
  have h2: "?ret = Inr (\<lambda>proxy. None)"
    by (rule copy_init_optional_without_traits)
  note t = try_evaluates_operand_once [where src = ?src and ret_init = ?ret
      and conv = "\<lambda>proxy. None", OF h1 h2]
  from t obtain run :: "(nat \<Rightarrow> int option \<times> nat) \<Rightarrow> nat \<Rightarrow> (string option, int) completion \<times> nat"
    where c: "try_macro ?src ?ret = Inr run"
    and r: "\<forall>expr s. snd (run expr s) = snd (expr s)
                 \<and> fst (run expr s) =
                     (case indicates_error ?src (fst (expr s)) of
                        Inl f \<Rightarrow> Faults f
                      | Inr failed \<Rightarrow>
                          if failed then Returns ((\<lambda>proxy. None) (Error_proxy (fst (expr s))))
                          else maybe_extract_value ?src (fst (expr s)))"
    by auto
  have "run (\<lambda>n::nat. (Some 7, Suc n)) 0 = (Yields 7, 1)"
    using r [rule_format, of "\<lambda>n::nat. (Some 7, Suc n)" 0]
    by (simp add: prod_eq_iff optional_fields maybe_extract_value_def)
  moreover have "run (\<lambda>n::nat. (None, Suc n)) 0 = (Returns None, 1)"
    using r [rule_format, of "\<lambda>n::nat. (None, Suc n)" 0]
    by (simp add: prod_eq_iff optional_fields maybe_extract_value_def)
  ultimately have last: "\<exists>run. try_macro ?src ?ret = Inr run
        \<and> run (\<lambda>n::nat. (Some 7, Suc n)) 0 = (Yields 7, 1)
        \<and> run (\<lambda>n::nat. (None, Suc n)) 0 = (Returns None, 1)"
    using c by blast
  show ?thesis
    by (intro conjI) (rule h1 h2 last)+
qed

end
